theory Spec2Isabelle
  imports Complex_Main
begin

section \<open>Data model (sensors/models.py)\<close>

text \<open>
  Rows of the four tables of \<^verbatim>\<open>sensors/models.py\<close>. A foreign key is the primary key of
  the row it points to; a \<^verbatim>\<open>DateTimeField\<close> is a point of the server clock, a natural
  number; a \<^verbatim>\<open>FloatField\<close> is a real number (the comparisons of the code are exact on
  floats, NaN and the infinities are left out); a nullable column is an \<open>option\<close>.
  Field names carry a prefix per model, since several models share names.
\<close>

type_synonym user_id = nat
type_synonym datetime = nat

record Device =
  d_id :: nat
  d_name :: string
  d_location :: string
  d_api_key :: string
  d_is_active :: bool
  d_created_at :: datetime
  d_updated_at :: datetime
  d_owner :: user_id

record SensorData =
  sd_id :: nat
  sd_device :: nat
  sd_temperature :: real
  sd_humidity :: real
  sd_air_quality :: real
  sd_uv_index :: "real option"
  sd_light_level :: "real option"
  sd_timestamp :: datetime
  sd_raw_data :: string

datatype alert_type =
  temperature_high | temperature_low | humidity_high | humidity_low | air_quality_bad | uv_high

datatype alert_status = active | resolved | ignored

text \<open>
  An f-string is kept as the sequence of its parts: the literal pieces (UTF-8 bytes) and the
  interpolated floats, so that no rendering of a float is fixed by the model.
\<close>

datatype fpart = Lit string | Num real

text \<open>
  An \<^verbatim>\<open>Alert\<close> instance. Before it is inserted it has neither a primary key nor a
  \<^verbatim>\<open>created_at\<close> (\<^verbatim>\<open>auto_now_add\<close> fills it on insert).
\<close>

record Alert =
  a_id :: "nat option"
  a_device :: nat
  a_alert_type :: alert_type
  a_threshold_value :: real
  a_current_value :: real
  a_status :: alert_status
  a_message :: "fpart list"
  a_created_at :: "datetime option"
  a_resolved_at :: "datetime option"

record UserSettings =
  us_id :: nat
  us_user :: user_id
  temp_high_threshold :: real
  temp_low_threshold :: real
  humidity_high_threshold :: real
  humidity_low_threshold :: real
  air_quality_threshold :: real
  email_notifications :: bool
  push_notifications :: bool
  us_created_at :: datetime
  us_updated_at :: datetime

text \<open>The stored value of \<^verbatim>\<open>Alert.status\<close> (first components of \<^verbatim>\<open>ALERT_STATUS\<close>).\<close>

fun status_value :: "alert_status \<Rightarrow> string" where
  "status_value active = ''active''"
| "status_value resolved = ''resolved''"
| "status_value ignored = ''ignored''"

section \<open>The alert rules of \<^verbatim>\<open>SensorDataCreateSerializer._check_alerts\<close>\<close>

text \<open>
  \<^verbatim>\<open>Alert(device=..., alert_type=..., threshold_value=..., current_value=..., message=...)\<close>:
  the other fields take their defaults (\<^verbatim>\<open>status='active'\<close>, no \<^verbatim>\<open>resolved_at\<close>).
\<close>

definition new_Alert :: "Device \<Rightarrow> alert_type \<Rightarrow> real \<Rightarrow> real \<Rightarrow> fpart list \<Rightarrow> Alert" where
  "new_Alert device ty threshold current msg =
     \<lparr> a_id = None, a_device = d_id device, a_alert_type = ty,
       a_threshold_value = threshold, a_current_value = current,
       a_status = active, a_message = msg,
       a_created_at = None, a_resolved_at = None \<rparr>"

text \<open>The literal pieces of the five messages (serializers.py, lines 67, 75, 85, 93, 103).\<close>

definition txt_threshold :: string where
  "txt_threshold = [CHR 0xEC, CHR 0x9E, CHR 0x84, CHR 0xEA, CHR 0xB3, CHR 0x84, CHR 0xEA, CHR 0xB0, CHR 0x92]"

definition txt_warning :: string where
  "txt_warning = [CHR 0xEA, CHR 0xB2, CHR 0xBD, CHR 0xEA, CHR 0xB3, CHR 0xA0]"

definition txt_degC :: string where
  "txt_degC = [CHR 0xC2, CHR 0xB0] @ ''C''"

definition message_temperature_high :: "real \<Rightarrow> real \<Rightarrow> fpart list" where
  "message_temperature_high v th =
     [Lit ([CHR 0xEA, CHR 0xB3, CHR 0xA0, CHR 0xEC, CHR 0x98, CHR 0xA8] @ '' '' @ txt_warning @ '': ''),
      Num v, Lit (txt_degC @ '' ('' @ txt_threshold @ '': ''), Num th, Lit (txt_degC @ '')'')]"

definition message_temperature_low :: "real \<Rightarrow> real \<Rightarrow> fpart list" where
  "message_temperature_low v th =
     [Lit ([CHR 0xEC, CHR 0xA0, CHR 0x80, CHR 0xEC, CHR 0x98, CHR 0xA8] @ '' '' @ txt_warning @ '': ''),
      Num v, Lit (txt_degC @ '' ('' @ txt_threshold @ '': ''), Num th, Lit (txt_degC @ '')'')]"

definition message_humidity_high :: "real \<Rightarrow> real \<Rightarrow> fpart list" where
  "message_humidity_high v th =
     [Lit ([CHR 0xEA, CHR 0xB3, CHR 0xA0, CHR 0xEC, CHR 0x8A, CHR 0xB5, CHR 0xEB, CHR 0x8F, CHR 0x84]
            @ '' '' @ txt_warning @ '': ''),
      Num v, Lit (''% ('' @ txt_threshold @ '': ''), Num th, Lit ''%)'']"

definition message_humidity_low :: "real \<Rightarrow> real \<Rightarrow> fpart list" where
  "message_humidity_low v th =
     [Lit ([CHR 0xEC, CHR 0xA0, CHR 0x80, CHR 0xEC, CHR 0x8A, CHR 0xB5, CHR 0xEB, CHR 0x8F, CHR 0x84]
            @ '' '' @ txt_warning @ '': ''),
      Num v, Lit (''% ('' @ txt_threshold @ '': ''), Num th, Lit ''%)'']"

definition message_air_quality_bad :: "real \<Rightarrow> real \<Rightarrow> fpart list" where
  "message_air_quality_bad v th =
     [Lit ([CHR 0xEA, CHR 0xB3, CHR 0xB5, CHR 0xEA, CHR 0xB8, CHR 0xB0, CHR 0xEC, CHR 0xA7, CHR 0x88] @ '' ''
            @ [CHR 0xEB, CHR 0x82, CHR 0x98, CHR 0xEC, CHR 0x81, CHR 0xA8] @ '': ''),
      Num v, Lit ('' ('' @ txt_threshold @ '': ''), Num th, Lit '')'']"

text \<open>
  The list \<^verbatim>\<open>alerts_to_create\<close> that \<^verbatim>\<open>_check_alerts\<close> builds (lines 58 to 104):
  three checks in sequence, each appending at most one alert.
\<close>

definition alerts_to_create :: "Device \<Rightarrow> UserSettings \<Rightarrow> SensorData \<Rightarrow> Alert list" where
  "alerts_to_create device settings sensor_data =
     (if sd_temperature sensor_data > temp_high_threshold settings then
        [new_Alert device temperature_high (temp_high_threshold settings) (sd_temperature sensor_data)
           (message_temperature_high (sd_temperature sensor_data) (temp_high_threshold settings))]
      else if sd_temperature sensor_data < temp_low_threshold settings then
        [new_Alert device temperature_low (temp_low_threshold settings) (sd_temperature sensor_data)
           (message_temperature_low (sd_temperature sensor_data) (temp_low_threshold settings))]
      else [])
     @
     (if sd_humidity sensor_data > humidity_high_threshold settings then
        [new_Alert device humidity_high (humidity_high_threshold settings) (sd_humidity sensor_data)
           (message_humidity_high (sd_humidity sensor_data) (humidity_high_threshold settings))]
      else if sd_humidity sensor_data < humidity_low_threshold settings then
        [new_Alert device humidity_low (humidity_low_threshold settings) (sd_humidity sensor_data)
           (message_humidity_low (sd_humidity sensor_data) (humidity_low_threshold settings))]
      else [])
     @
     (if sd_air_quality sensor_data > air_quality_threshold settings then
        [new_Alert device air_quality_bad (air_quality_threshold settings) (sd_air_quality sensor_data)
           (message_air_quality_bad (sd_air_quality sensor_data) (air_quality_threshold settings))]
      else [])"

section \<open>The store, the channel layer and the ORM calls\<close>

text \<open>
  The two groups of the channel layer that the code names: \<^verbatim>\<open>f'user_{id}_sensors'\<close> and
  \<^verbatim>\<open>f'user_{id}_alerts'\<close>.
\<close>

datatype group = sensors_group user_id | alerts_group user_id

text \<open>
  \<^verbatim>\<open>SensorDataSerializer(instance).data\<close>: the row with the name and location of its device.
  \<^verbatim>\<open>AlertSerializer(instance).data\<close>: the row with the name of its device (the two display
  labels are functions of \<^verbatim>\<open>alert_type\<close> and \<^verbatim>\<open>status\<close> and are not repeated).
\<close>

record SensorData_repr =
  r_row :: SensorData
  r_device_name :: string
  r_device_location :: string

record Alert_repr =
  ar_row :: Alert
  ar_device_name :: string

text \<open>
  The messages handed to \<^verbatim>\<open>channel_layer.group_send\<close>, named by their \<^verbatim>\<open>'type'\<close>. The
  \<^verbatim>\<open>'timestamp'\<close> key of an alert notification is present in the message to the alert group
  only.
\<close>

datatype channel_message =
    sensor_data_update SensorData_repr
  | alert_notification Alert_repr "datetime option"

text \<open>Writes to the store and sends to the channel layer, in the order they happen.\<close>

datatype effect =
    Insert_SensorData SensorData
  | Insert_UserSettings UserSettings
  | Insert_Alert Alert
  | Bulk_Insert_Alert "Alert list"
  | Update_Alert Alert
  | Group_Send group channel_message

text \<open>
  Three kinds of effects: the insert of a reading, the reading-event (a
  \<^verbatim>\<open>sensor_data_update\<close> sent to a group) and the alert-event (an
  \<^verbatim>\<open>alert_notification\<close> sent to a group).
\<close>

fun is_reading_insert :: "effect \<Rightarrow> bool" where
  "is_reading_insert (Insert_SensorData _) = True"
| "is_reading_insert _ = False"

fun is_reading_event :: "effect \<Rightarrow> bool" where
  "is_reading_event (Group_Send _ (sensor_data_update _)) = True"
| "is_reading_event _ = False"

fun is_alert_event :: "effect \<Rightarrow> bool" where
  "is_alert_event (Group_Send _ (alert_notification _ _)) = True"
| "is_alert_event _ = False"

record world =
  Device_objects :: "Device list"
  SensorData_objects :: "SensorData list"
  Alert_objects :: "Alert list"
  UserSettings_objects :: "UserSettings list"
  next_SensorData_id :: nat
  next_Alert_id :: nat
  next_UserSettings_id :: nat
  clock :: datetime
  trace :: "effect list"

text \<open>
  Exceptions. \<^verbatim>\<open>serializers.ValidationError\<close> carries its detail; a detail is named by the
  code Django REST framework gives it (\<^verbatim>\<open>required\<close>, \<^verbatim>\<open>blank\<close>,
  \<^verbatim>\<open>null_characters_not_allowed\<close>, \<^verbatim>\<open>min_value\<close> and \<^verbatim>\<open>max_value\<close> with the limit) or,
  for the error raised by \<^verbatim>\<open>validate_api_key\<close>, holds the message.
\<close>

datatype error_detail =
    required | blank | null_characters_not_allowed
  | min_value real | max_value real | invalid string

datatype exn =
    DoesNotExist | MultipleObjectsReturned | IntegrityError
  | ValidationError error_detail | Http404 | NotAuthenticated

text \<open>\<^verbatim>\<open>Model.objects.get(...)\<close>: exactly one row must satisfy the lookup.\<close>

definition objects_get :: "('a \<Rightarrow> bool) \<Rightarrow> 'a list \<Rightarrow> exn + 'a" where
  "objects_get P rows =
     (case filter P rows of
        [] \<Rightarrow> Inl DoesNotExist
      | [x] \<Rightarrow> Inr x
      | _ \<Rightarrow> Inl MultipleObjectsReturned)"

text \<open>\<^verbatim>\<open>timezone.now()\<close> reads the server clock.\<close>

definition timezone_now :: "world \<Rightarrow> datetime" where
  "timezone_now s = clock s"

definition group_send :: "world \<Rightarrow> group \<Rightarrow> channel_message \<Rightarrow> world" where
  "group_send s g m = s\<lparr>trace := trace s @ [Group_Send g m]\<rparr>"

subsection \<open>sensors/signals.py\<close>

text \<open>
  \<^verbatim>\<open>sensor_data_created\<close>, the \<^verbatim>\<open>post_save\<close> receiver of \<^verbatim>\<open>SensorData\<close>. The device is
  the object cached on the instance by the caller.
\<close>

definition sensor_data_created :: "world \<Rightarrow> Device \<Rightarrow> SensorData \<Rightarrow> bool \<Rightarrow> world" where
  "sensor_data_created s device instance created =
     (if created then
        group_send s (sensors_group (d_owner device))
          (sensor_data_update
             \<lparr> r_row = instance, r_device_name = d_name device,
               r_device_location = d_location device \<rparr>)
      else s)"

text \<open>
  \<^verbatim>\<open>alert_created\<close>, the \<^verbatim>\<open>post_save\<close> receiver of \<^verbatim>\<open>Alert\<close>. \<^verbatim>\<open>instance.device\<close> is
  loaded from the store by its primary key.
\<close>

definition alert_created :: "world \<Rightarrow> Alert \<Rightarrow> bool \<Rightarrow> exn + world" where
  "alert_created s instance created =
     (if created then
        (case objects_get (\<lambda>d. d_id d = a_device instance) (Device_objects s) of
           Inl e \<Rightarrow> Inl e
         | Inr device \<Rightarrow>
             (let alert_data = \<lparr> ar_row = instance, ar_device_name = d_name device \<rparr>;
                  s1 = group_send s (alerts_group (d_owner device))
                         (alert_notification alert_data (a_created_at instance));
                  s2 = group_send s1 (sensors_group (d_owner device))
                         (alert_notification alert_data None)
              in Inr s2))
      else Inr s)"

subsection \<open>Writes\<close>

text \<open>
  The values \<^verbatim>\<open>SensorDataCreateSerializer\<close> hands to \<^verbatim>\<open>create\<close>. A key that the
  request left out is absent here too (\<open>None\<close>), and the model default fills the column.
\<close>

record validated_data =
  vd_temperature :: real
  vd_humidity :: real
  vd_air_quality :: real
  vd_uv_index :: "real option"
  vd_light_level :: "real option"
  vd_raw_data :: "string option"
  vd_api_key :: string

text \<open>
  \<^verbatim>\<open>SensorData.objects.create(device=device, **validated_data)\<close>: the row gets the next
  primary key and, by \<^verbatim>\<open>auto_now_add\<close>, the server time; \<^verbatim>\<open>raw_data\<close> defaults to the
  empty dict. After the insert, \<^verbatim>\<open>post_save\<close> runs its receiver with \<^verbatim>\<open>created=True\<close>.
\<close>

definition SensorData_objects_create ::
    "world \<Rightarrow> Device \<Rightarrow> validated_data \<Rightarrow> SensorData \<times> world" where
  "SensorData_objects_create s device vd =
     (let row = \<lparr> sd_id = next_SensorData_id s, sd_device = d_id device,
                  sd_temperature = vd_temperature vd, sd_humidity = vd_humidity vd,
                  sd_air_quality = vd_air_quality vd, sd_uv_index = vd_uv_index vd,
                  sd_light_level = vd_light_level vd, sd_timestamp = timezone_now s,
                  sd_raw_data = (case vd_raw_data vd of None \<Rightarrow> ''{}'' | Some j \<Rightarrow> j) \<rparr>;
          s1 = s\<lparr> SensorData_objects := SensorData_objects s @ [row],
                  next_SensorData_id := next_SensorData_id s + 1,
                  trace := trace s @ [Insert_SensorData row] \<rparr>
      in (row, sensor_data_created s1 device row True))"

text \<open>
  \<^verbatim>\<open>UserSettings.objects.create(user=owner)\<close>: every threshold takes the default declared
  in the model. \<^verbatim>\<open>user\<close> is a \<^verbatim>\<open>OneToOneField\<close>, so a second row for the same user is
  refused by the store.
\<close>

definition UserSettings_objects_create :: "world \<Rightarrow> user_id \<Rightarrow> (exn + UserSettings) \<times> world" where
  "UserSettings_objects_create s owner =
     (if filter (\<lambda>u. us_user u = owner) (UserSettings_objects s) \<noteq> [] then (Inl IntegrityError, s)
      else
        (let row = \<lparr> us_id = next_UserSettings_id s, us_user = owner,
                     temp_high_threshold = 35.0, temp_low_threshold = 5.0,
                     humidity_high_threshold = 80.0, humidity_low_threshold = 20.0,
                     air_quality_threshold = 500.0,
                     email_notifications = True, push_notifications = True,
                     us_created_at = timezone_now s, us_updated_at = timezone_now s \<rparr>
         in (Inr row,
             s\<lparr> UserSettings_objects := UserSettings_objects s @ [row],
                next_UserSettings_id := next_UserSettings_id s + 1,
                trace := trace s @ [Insert_UserSettings row] \<rparr>)))"

text \<open>
  \<^verbatim>\<open>Alert.objects.bulk_create(objs)\<close>: one insert for all rows, each with the next primary
  key and the server time as \<^verbatim>\<open>created_at\<close>. Django's \<^verbatim>\<open>bulk_create\<close> does not call
  \<^verbatim>\<open>save()\<close> and sends neither \<^verbatim>\<open>pre_save\<close> nor \<^verbatim>\<open>post_save\<close>, so no receiver runs.
\<close>

definition Alert_objects_bulk_create :: "world \<Rightarrow> Alert list \<Rightarrow> world" where
  "Alert_objects_bulk_create s objs =
     (let rows = map (\<lambda>(i, a). a\<lparr> a_id := Some i, a_created_at := Some (timezone_now s) \<rparr>)
                   (enumerate (next_Alert_id s) objs)
      in s\<lparr> Alert_objects := Alert_objects s @ rows,
             next_Alert_id := next_Alert_id s + length objs,
             trace := trace s @ [Bulk_Insert_Alert rows] \<rparr>)"

text \<open>
  \<^verbatim>\<open>alert.save()\<close>: an instance whose primary key is in the table is updated, any other is
  inserted; then \<^verbatim>\<open>post_save\<close> runs its receiver, with \<^verbatim>\<open>created\<close> telling which.
\<close>

definition Alert_save :: "world \<Rightarrow> Alert \<Rightarrow> (exn + Alert) \<times> world" where
  "Alert_save s instance =
     (if a_id instance \<noteq> None \<and> a_id instance \<in> a_id ` set (Alert_objects s) then
        (let s1 = s\<lparr> Alert_objects :=
                       map (\<lambda>r. if a_id r = a_id instance then instance else r) (Alert_objects s),
                     trace := trace s @ [Update_Alert instance] \<rparr>
         in case alert_created s1 instance False of
              Inl e \<Rightarrow> (Inl e, s1) | Inr s2 \<Rightarrow> (Inr instance, s2))
      else
        (let row = instance\<lparr> a_id := Some (case a_id instance of None \<Rightarrow> next_Alert_id s | Some i \<Rightarrow> i),
                             a_created_at := Some (timezone_now s) \<rparr>;
             s1 = s\<lparr> Alert_objects := Alert_objects s @ [row],
                     next_Alert_id := (case a_id instance of None \<Rightarrow> next_Alert_id s + 1
                                       | Some i \<Rightarrow> next_Alert_id s),
                     trace := trace s @ [Insert_Alert row] \<rparr>
         in case alert_created s1 row True of
              Inl e \<Rightarrow> (Inl e, s1) | Inr s2 \<Rightarrow> (Inr row, s2)))"

section \<open>Ingestion: \<^verbatim>\<open>SensorDataCreateSerializer\<close> and \<^verbatim>\<open>receive_sensor_data\<close>\<close>

text \<open>
  \<^verbatim>\<open>request.data\<close> as the fields of the serializer read it: each key is absent (\<open>None\<close>)
  or holds a value of the type of its field: a number for the float fields, a string
  (valid UTF-8) for \<^verbatim>\<open>api_key\<close>, as the client sent it. For the two nullable fields
  \<open>None\<close> also stands for an explicit null. A \<^verbatim>\<open>timestamp\<close> key may be sent as well; it
  is not among \<^verbatim>\<open>Meta.fields\<close>.
\<close>

record payload =
  p_temperature :: "real option"
  p_humidity :: "real option"
  p_air_quality :: "real option"
  p_uv_index :: "real option"
  p_light_level :: "real option"
  p_raw_data :: "string option"
  p_api_key :: "string option"
  p_timestamp :: "datetime option"

text \<open>
  The validators a \<^verbatim>\<open>FloatField\<close> of \<^verbatim>\<open>SensorData\<close> declares
  (\<^verbatim>\<open>MinValueValidator\<close>, \<^verbatim>\<open>MaxValueValidator\<close>); every failing one reports.
\<close>

definition run_validators :: "real option \<Rightarrow> real option \<Rightarrow> real \<Rightarrow> error_detail list" where
  "run_validators lo hi x =
     (case lo of None \<Rightarrow> [] | Some m \<Rightarrow> if x < m then [min_value m] else [])
     @ (case hi of None \<Rightarrow> [] | Some m \<Rightarrow> if x > m then [max_value m] else [])"

text \<open>A field without \<^verbatim>\<open>null=True, blank=True\<close> is required.\<close>

definition required_float ::
    "real option \<Rightarrow> real option \<Rightarrow> real option \<Rightarrow> error_detail list + real" where
  "required_float lo hi v =
     (case v of
        None \<Rightarrow> Inl [required]
      | Some x \<Rightarrow> if run_validators lo hi x = [] then Inr x else Inl (run_validators lo hi x))"

definition optional_float ::
    "real option \<Rightarrow> real option \<Rightarrow> real option \<Rightarrow> error_detail list + real option" where
  "optional_float lo hi v =
     (case v of
        None \<Rightarrow> Inr None
      | Some x \<Rightarrow> if run_validators lo hi x = [] then Inr (Some x) else Inl (run_validators lo hi x))"

text \<open>The message of the \<^verbatim>\<open>ValidationError\<close> of \<^verbatim>\<open>validate_api_key\<close> (line 34).\<close>

definition txt_invalid_api_key :: string where
  "txt_invalid_api_key =
     [CHR 0xEC, CHR 0x9C, CHR 0xA0, CHR 0xED, CHR 0x9A, CHR 0xA8, CHR 0xED, CHR 0x95, CHR 0x98,
      CHR 0xEC, CHR 0xA7, CHR 0x80] @ '' '' @
     [CHR 0xEC, CHR 0x95, CHR 0x8A, CHR 0xEC, CHR 0x9D, CHR 0x80] @ '' API '' @
     [CHR 0xED, CHR 0x82, CHR 0xA4, CHR 0xEC, CHR 0x9E, CHR 0x85, CHR 0xEB, CHR 0x8B, CHR 0x88,
      CHR 0xEB, CHR 0x8B, CHR 0xA4] @ ''.''"

definition validate_api_key :: "world \<Rightarrow> string \<Rightarrow> exn + string" where
  "validate_api_key s val =
     (case objects_get (\<lambda>d. d_api_key d = val \<and> d_is_active d) (Device_objects s) of
        Inr device \<Rightarrow> Inr val
      | Inl DoesNotExist \<Rightarrow> Inl (ValidationError (invalid txt_invalid_api_key))
      | Inl e \<Rightarrow> Inl e)"

text \<open>
  \<^verbatim>\<open>api_key = serializers.CharField(write_only=True)\<close> (line 21). Before
  \<^verbatim>\<open>validate_api_key\<close> is called the field validates the string itself, with the
  defaults of \<^verbatim>\<open>CharField\<close> (\<^verbatim>\<open>allow_blank=False\<close>, \<^verbatim>\<open>trim_whitespace=True\<close>): a string
  that is empty, or empty once stripped, fails with \<^verbatim>\<open>blank\<close>; otherwise the value is the
  stripped string, and it must hold no null character.

  \<^verbatim>\<open>str.strip()\<close> removes the code points for which \<^verbatim>\<open>str.isspace()\<close> holds from both
  ends. Their UTF-8 encodings:
\<close>

definition whitespace :: "string list" where
  "whitespace =
     [[CHR 0x09], [CHR 0x0A], [CHR 0x0B], [CHR 0x0C], [CHR 0x0D],
      [CHR 0x1C], [CHR 0x1D], [CHR 0x1E], [CHR 0x1F], [CHR 0x20],
      [CHR 0xC2, CHR 0x85], [CHR 0xC2, CHR 0xA0],
      [CHR 0xE1, CHR 0x9A, CHR 0x80],
      [CHR 0xE2, CHR 0x80, CHR 0x80], [CHR 0xE2, CHR 0x80, CHR 0x81],
      [CHR 0xE2, CHR 0x80, CHR 0x82], [CHR 0xE2, CHR 0x80, CHR 0x83],
      [CHR 0xE2, CHR 0x80, CHR 0x84], [CHR 0xE2, CHR 0x80, CHR 0x85],
      [CHR 0xE2, CHR 0x80, CHR 0x86], [CHR 0xE2, CHR 0x80, CHR 0x87],
      [CHR 0xE2, CHR 0x80, CHR 0x88], [CHR 0xE2, CHR 0x80, CHR 0x89],
      [CHR 0xE2, CHR 0x80, CHR 0x8A], [CHR 0xE2, CHR 0x80, CHR 0xA8],
      [CHR 0xE2, CHR 0x80, CHR 0xA9], [CHR 0xE2, CHR 0x80, CHR 0xAF],
      [CHR 0xE2, CHR 0x81, CHR 0x9F], [CHR 0xE3, CHR 0x80, CHR 0x80]]"

text \<open>
  The number of bytes of the code point of \<open>ws\<close> that the string starts with, 0 when it
  starts with none.
\<close>

definition ws_len :: "string list \<Rightarrow> string \<Rightarrow> nat" where
  "ws_len ws s =
     (case find (\<lambda>w. w \<noteq> [] \<and> take (length w) s = w) ws of
        None \<Rightarrow> 0
      | Some w \<Rightarrow> length w)"

text \<open>Removing the leading code points of \<open>ws\<close>, one at a time.\<close>

fun lstrip_by :: "string list \<Rightarrow> string \<Rightarrow> string" where
  "lstrip_by ws [] = []"
| "lstrip_by ws (c # cs) =
     (if ws_len ws (c # cs) = 0 then c # cs
      else lstrip_by ws (drop (ws_len ws (c # cs) - 1) cs))"

definition strip :: "string \<Rightarrow> string" where
  "strip s = rev (lstrip_by (map rev whitespace) (rev (lstrip_by whitespace s)))"

definition CharField_run_validation :: "string \<Rightarrow> error_detail list + string" where
  "CharField_run_validation data =
     (if data = [] \<or> strip data = [] then Inl [blank]
      else if CHR 0x00 \<in> set (strip data) then Inl [null_characters_not_allowed]
      else Inr (strip data))"

text \<open>
  The \<^verbatim>\<open>api_key\<close> field: required; a given string goes through the validation of the
  field and then through \<^verbatim>\<open>validate_api_key\<close>, whose \<^verbatim>\<open>ValidationError\<close> becomes the
  error of the field; any other exception leaves the serializer.
\<close>

definition api_key_field :: "world \<Rightarrow> string option \<Rightarrow> exn + (error_detail list + string)" where
  "api_key_field s v =
     (case v of
        None \<Rightarrow> Inr (Inl [required])
      | Some data \<Rightarrow>
          (case CharField_run_validation data of
             Inl es \<Rightarrow> Inr (Inl es)
           | Inr k \<Rightarrow>
               (case validate_api_key s k of
                  Inr k' \<Rightarrow> Inr (Inr k')
                | Inl (ValidationError d) \<Rightarrow> Inr (Inl [d])
                | Inl e \<Rightarrow> Inl e)))"

type_synonym errors = "(string \<times> error_detail list) list"

definition field_errors :: "string \<Rightarrow> error_detail list + 'a \<Rightarrow> errors" where
  "field_errors name r = (case r of Inl es \<Rightarrow> [(name, es)] | Inr _ \<Rightarrow> [])"

text \<open>
  The results of the fields are collected in the order of \<^verbatim>\<open>Meta.fields\<close>: the errors
  of all failing fields under the names of the fields (\<^verbatim>\<open>serializer.errors\<close>), or, when
  no field fails, \<^verbatim>\<open>validated_data\<close>.
\<close>

definition to_internal_value ::
    "error_detail list + real \<Rightarrow> error_detail list + real \<Rightarrow> error_detail list + real \<Rightarrow>
     error_detail list + real option \<Rightarrow> error_detail list + real option \<Rightarrow> string option \<Rightarrow>
     error_detail list + string \<Rightarrow> errors + validated_data" where
  "to_internal_value temperature humidity air_quality uv_index light_level raw_data api_key =
     (case (temperature, humidity, air_quality, uv_index, light_level, api_key) of
        (Inr t, Inr h, Inr q, Inr u, Inr l, Inr k) \<Rightarrow>
          Inr \<lparr> vd_temperature = t, vd_humidity = h, vd_air_quality = q,
                vd_uv_index = u, vd_light_level = l, vd_raw_data = raw_data, vd_api_key = k \<rparr>
      | _ \<Rightarrow>
          Inl (field_errors ''temperature'' temperature
               @ field_errors ''humidity'' humidity
               @ field_errors ''air_quality'' air_quality
               @ field_errors ''uv_index'' uv_index
               @ field_errors ''light_level'' light_level
               @ field_errors ''api_key'' api_key))"

text \<open>
  \<^verbatim>\<open>serializer.is_valid()\<close>: every field is validated, with the ranges of models.py,
  lines 30 to 62. An exception of \<^verbatim>\<open>validate_api_key\<close> other than a
  \<^verbatim>\<open>ValidationError\<close> ends the call.
\<close>

definition is_valid :: "world \<Rightarrow> payload \<Rightarrow> exn + (errors + validated_data)" where
  "is_valid s p =
     (case api_key_field s (p_api_key p) of
        Inl e \<Rightarrow> Inl e
      | Inr api_key \<Rightarrow>
          Inr (to_internal_value
                 (required_float (Some (-50)) (Some 100) (p_temperature p))
                 (required_float (Some 0) (Some 100) (p_humidity p))
                 (required_float (Some 0) (Some 1000) (p_air_quality p))
                 (optional_float (Some 0) (Some 15) (p_uv_index p))
                 (optional_float (Some 0) None (p_light_level p))
                 (p_raw_data p)
                 api_key))"

text \<open>
  The first lines of \<^verbatim>\<open>_check_alerts\<close> (52 to 56): the settings of the owner, created
  with the defaults when the owner has none.
\<close>

definition settings_of_owner :: "world \<Rightarrow> user_id \<Rightarrow> (exn + UserSettings) \<times> world" where
  "settings_of_owner s owner =
     (case objects_get (\<lambda>u. us_user u = owner) (UserSettings_objects s) of
        Inr settings \<Rightarrow> (Inr settings, s)
      | Inl DoesNotExist \<Rightarrow> UserSettings_objects_create s owner
      | Inl e \<Rightarrow> (Inl e, s))"

definition check_alerts :: "world \<Rightarrow> Device \<Rightarrow> SensorData \<Rightarrow> (exn + unit) \<times> world" where
  "check_alerts s device sensor_data =
     (case settings_of_owner s (d_owner device) of
        (Inl e, s1) \<Rightarrow> (Inl e, s1)
      | (Inr settings, s1) \<Rightarrow>
          (if alerts_to_create device settings sensor_data \<noteq> [] then
             (Inr (), Alert_objects_bulk_create s1 (alerts_to_create device settings sensor_data))
           else (Inr (), s1)))"

text \<open>
  Two requests for the same owner running the lookup of \<^verbatim>\<open>_check_alerts\<close> (lines 52 to
  56) on one store. The lookup is two calls of the ORM, each one statement on the
  store: the \<^verbatim>\<open>get\<close>, and, after \<^verbatim>\<open>DoesNotExist\<close>, the \<^verbatim>\<open>create\<close>. A request is at
  its \<^verbatim>\<open>get\<close>, at its \<^verbatim>\<open>create\<close>, or has left the lookup with settings or with an
  exception. A schedule names the request that takes the next step.
\<close>

datatype lookup_pc = at_get | at_create | returned "exn + UserSettings"

definition lookup_step :: "user_id \<Rightarrow> world \<times> lookup_pc \<Rightarrow> world \<times> lookup_pc" where
  "lookup_step owner c =
     (case c of
        (s, at_get) \<Rightarrow>
          (case objects_get (\<lambda>u. us_user u = owner) (UserSettings_objects s) of
             Inr settings \<Rightarrow> (s, returned (Inr settings))
           | Inl DoesNotExist \<Rightarrow> (s, at_create)
           | Inl e \<Rightarrow> (s, returned (Inl e)))
      | (s, at_create) \<Rightarrow>
          (case UserSettings_objects_create s owner of (r, s') \<Rightarrow> (s', returned r))
      | (s, returned r) \<Rightarrow> (s, returned r))"

datatype request = first_request | second_request

fun schedule_step ::
    "user_id \<Rightarrow> request \<Rightarrow> world \<times> lookup_pc \<times> lookup_pc \<Rightarrow> world \<times> lookup_pc \<times> lookup_pc" where
  "schedule_step owner first_request (s, a, b) =
     (case lookup_step owner (s, a) of (s', a') \<Rightarrow> (s', a', b))"
| "schedule_step owner second_request (s, a, b) =
     (case lookup_step owner (s, b) of (s', b') \<Rightarrow> (s', a, b'))"

definition run_schedule ::
    "user_id \<Rightarrow> request list \<Rightarrow> world \<times> lookup_pc \<times> lookup_pc \<Rightarrow> world \<times> lookup_pc \<times> lookup_pc" where
  "run_schedule owner schedule c = fold (schedule_step owner) schedule c"

text \<open>
  \<^verbatim>\<open>SensorDataCreateSerializer.create\<close>. The result is the new row together with the
  device cached on it.
\<close>

definition create :: "world \<Rightarrow> validated_data \<Rightarrow> (exn + SensorData \<times> Device) \<times> world" where
  "create s vd =
     (case objects_get (\<lambda>d. d_api_key d = vd_api_key vd \<and> d_is_active d) (Device_objects s) of
        Inl e \<Rightarrow> (Inl e, s)
      | Inr device \<Rightarrow>
          (case SensorData_objects_create s device vd of
             (sensor_data, s1) \<Rightarrow>
               (case check_alerts s1 device sensor_data of
                  (Inl e, s2) \<Rightarrow> (Inl e, s2)
                | (Inr _, s2) \<Rightarrow> (Inr (sensor_data, device), s2))))"

text \<open>
  The two bodies \<^verbatim>\<open>receive_sensor_data\<close> answers with: \<^verbatim>\<open>data_id\<close>, \<^verbatim>\<open>timestamp\<close>
  and \<^verbatim>\<open>device\<close> on success, the errors of the serializer otherwise.
\<close>

datatype response_data =
    success nat datetime string
  | error errors

record Response =
  status_code :: nat
  data :: response_data

definition receive_sensor_data :: "world \<Rightarrow> payload \<Rightarrow> (exn + Response) \<times> world" where
  "receive_sensor_data s p =
     (case is_valid s p of
        Inl e \<Rightarrow> (Inl e, s)
      | Inr (Inr vd) \<Rightarrow>
          (case create s vd of
             (Inl e, s') \<Rightarrow> (Inl e, s')
           | (Inr (sensor_data, dev), s') \<Rightarrow>
               (Inr \<lparr> status_code = 201,
                      data = success (sd_id sensor_data) (sd_timestamp sensor_data) (d_name dev) \<rparr>,
                s'))
      | Inr (Inl errs) \<Rightarrow> (Inr \<lparr> status_code = 400, data = error errs \<rparr>, s))"

section \<open>\<^verbatim>\<open>AlertViewSet.resolve\<close>\<close>

text \<open>
  \<^verbatim>\<open>AlertViewSet.get_queryset\<close>: the alerts of the devices the user owns, narrowed by the
  \<^verbatim>\<open>status\<close> query parameter when it is given and not empty.
\<close>

definition get_queryset :: "world \<Rightarrow> user_id \<Rightarrow> string option \<Rightarrow> Alert list" where
  "get_queryset s user status_filter =
     (let user_devices = filter (\<lambda>d. d_owner d = user) (Device_objects s);
          queryset = filter (\<lambda>a. a_device a \<in> d_id ` set user_devices) (Alert_objects s)
      in case status_filter of
           None \<Rightarrow> queryset
         | Some f \<Rightarrow> if f = [] then queryset
                     else filter (\<lambda>a. status_value (a_status a) = f) queryset)"

text \<open>\<^verbatim>\<open>self.get_object()\<close>: the row of the queryset with the primary key of the URL, or 404.\<close>

definition get_object :: "world \<Rightarrow> user_id \<Rightarrow> string option \<Rightarrow> nat \<Rightarrow> exn + Alert" where
  "get_object s user status_filter pk =
     (case objects_get (\<lambda>a. a_id a = Some pk) (get_queryset s user status_filter) of
        Inl DoesNotExist \<Rightarrow> Inl Http404
      | Inl e \<Rightarrow> Inl e
      | Inr a \<Rightarrow> Inr a)"

text \<open>
  \<^verbatim>\<open>resolve\<close>, behind \<^verbatim>\<open>IsAuthenticated\<close>. The body of the response is the saved alert.
\<close>

definition resolve :: "world \<Rightarrow> user_id option \<Rightarrow> string option \<Rightarrow> nat \<Rightarrow> (exn + Alert) \<times> world" where
  "resolve s request_user status_filter pk =
     (case request_user of
        None \<Rightarrow> (Inl NotAuthenticated, s)
      | Some user \<Rightarrow>
          (case get_object s user status_filter pk of
             Inl e \<Rightarrow> (Inl e, s)
           | Inr alert \<Rightarrow>
               Alert_save s (alert\<lparr> a_status := resolved, a_resolved_at := Some (timezone_now s) \<rparr>)))"

section \<open>A concrete store\<close>

text \<open>
  Two devices of user 7, the second one disabled; no readings, alerts or settings yet. The
  payloads are those of the examples of the specification, sent with a \<^verbatim>\<open>timestamp\<close> key.
\<close>

definition device_1 :: Device where
  "device_1 = \<lparr> d_id = 1, d_name = ''garden'', d_location = ''roof'', d_api_key = ''key-1'',
                d_is_active = True, d_created_at = 10, d_updated_at = 10, d_owner = 7 \<rparr>"

definition device_2 :: Device where
  "device_2 = \<lparr> d_id = 2, d_name = ''cellar'', d_location = ''house'', d_api_key = ''key-2'',
                d_is_active = False, d_created_at = 20, d_updated_at = 30, d_owner = 7 \<rparr>"

definition world_0 :: world where
  "world_0 = \<lparr> Device_objects = [device_1, device_2], SensorData_objects = [],
               Alert_objects = [], UserSettings_objects = [],
               next_SensorData_id = 1, next_Alert_id = 1, next_UserSettings_id = 1,
               clock = 100, trace = [] \<rparr>"

definition payload_of :: "real \<Rightarrow> real \<Rightarrow> real \<Rightarrow> string \<Rightarrow> payload" where
  "payload_of t h q k =
     \<lparr> p_temperature = Some t, p_humidity = Some h, p_air_quality = Some q,
       p_uv_index = None, p_light_level = None, p_raw_data = None,
       p_api_key = Some k, p_timestamp = Some 5 \<rparr>"

definition default_settings :: UserSettings where
  "default_settings =
     \<lparr> us_id = 1, us_user = 7, temp_high_threshold = 35.0, temp_low_threshold = 5.0,
       humidity_high_threshold = 80.0, humidity_low_threshold = 20.0,
       air_quality_threshold = 500.0, email_notifications = True, push_notifications = True,
       us_created_at = 100, us_updated_at = 100 \<rparr>"

definition reading_of :: "real \<Rightarrow> real \<Rightarrow> real \<Rightarrow> SensorData" where
  "reading_of t h q =
     \<lparr> sd_id = 1, sd_device = 1, sd_temperature = t, sd_humidity = h, sd_air_quality = q,
       sd_uv_index = None, sd_light_level = None, sd_timestamp = 100, sd_raw_data = ''{}'' \<rparr>"

section \<open>The alert rules\<close>

lemma alerts_to_create_types:
  "map a_alert_type (alerts_to_create dev settings r) =
     (if sd_temperature r > temp_high_threshold settings then [temperature_high]
      else if sd_temperature r < temp_low_threshold settings then [temperature_low] else [])
     @ (if sd_humidity r > humidity_high_threshold settings then [humidity_high]
      else if sd_humidity r < humidity_low_threshold settings then [humidity_low] else [])
     @ (if sd_air_quality r > air_quality_threshold settings then [air_quality_bad] else [])"
  by (simp add: alerts_to_create_def new_Alert_def)

lemma alerts_to_create_carry:
  "a \<in> set (alerts_to_create dev settings r) \<Longrightarrow>
     a_device a = d_id dev \<and> a_status a = active \<and>
     (a_alert_type a = temperature_high \<longrightarrow>
        a_threshold_value a = temp_high_threshold settings \<and> a_current_value a = sd_temperature r) \<and>
     (a_alert_type a = temperature_low \<longrightarrow>
        a_threshold_value a = temp_low_threshold settings \<and> a_current_value a = sd_temperature r) \<and>
     (a_alert_type a = humidity_high \<longrightarrow>
        a_threshold_value a = humidity_high_threshold settings \<and> a_current_value a = sd_humidity r) \<and>
     (a_alert_type a = humidity_low \<longrightarrow>
        a_threshold_value a = humidity_low_threshold settings \<and> a_current_value a = sd_humidity r) \<and>
     (a_alert_type a = air_quality_bad \<longrightarrow>
        a_threshold_value a = air_quality_threshold settings \<and> a_current_value a = sd_air_quality r)"
  by (auto simp add: alerts_to_create_def new_Alert_def split: if_splits)

text \<open>
  C1. For every reading and every settings row, the list built by \<^verbatim>\<open>_check_alerts\<close>
  holds \<^verbatim>\<open>temperature_high\<close> exactly when the temperature is above the high
  threshold, otherwise \<^verbatim>\<open>temperature_low\<close> exactly when it is below the low threshold;
  the same for the humidity; \<^verbatim>\<open>air_quality_bad\<close> exactly when the air quality is above
  its threshold. The types appear in the fixed order temperature, humidity, air quality,
  each at most once, and every alert carries the device, the threshold that was used and
  the observed value.
\<close>

theorem alert_rules:
  "(temperature_high \<in> set (map a_alert_type (alerts_to_create dev settings r))
      \<longleftrightarrow> sd_temperature r > temp_high_threshold settings) \<and>
   (temperature_low \<in> set (map a_alert_type (alerts_to_create dev settings r))
      \<longleftrightarrow> \<not> sd_temperature r > temp_high_threshold settings
          \<and> sd_temperature r < temp_low_threshold settings) \<and>
   (humidity_high \<in> set (map a_alert_type (alerts_to_create dev settings r))
      \<longleftrightarrow> sd_humidity r > humidity_high_threshold settings) \<and>
   (humidity_low \<in> set (map a_alert_type (alerts_to_create dev settings r))
      \<longleftrightarrow> \<not> sd_humidity r > humidity_high_threshold settings
          \<and> sd_humidity r < humidity_low_threshold settings) \<and>
   (air_quality_bad \<in> set (map a_alert_type (alerts_to_create dev settings r))
      \<longleftrightarrow> sd_air_quality r > air_quality_threshold settings) \<and>
   map a_alert_type (alerts_to_create dev settings r) =
     filter (\<lambda>ty. ty \<in> set (map a_alert_type (alerts_to_create dev settings r)))
       [temperature_high, temperature_low, humidity_high, humidity_low, air_quality_bad] \<and>
   (\<forall>a \<in> set (alerts_to_create dev settings r).
      a_device a = d_id dev \<and>
      (a_alert_type a = temperature_high \<longrightarrow>
         a_threshold_value a = temp_high_threshold settings \<and> a_current_value a = sd_temperature r) \<and>
      (a_alert_type a = temperature_low \<longrightarrow>
         a_threshold_value a = temp_low_threshold settings \<and> a_current_value a = sd_temperature r) \<and>
      (a_alert_type a = humidity_high \<longrightarrow>
         a_threshold_value a = humidity_high_threshold settings \<and> a_current_value a = sd_humidity r) \<and>
      (a_alert_type a = humidity_low \<longrightarrow>
         a_threshold_value a = humidity_low_threshold settings \<and> a_current_value a = sd_humidity r) \<and>
      (a_alert_type a = air_quality_bad \<longrightarrow>
         a_threshold_value a = air_quality_threshold settings \<and> a_current_value a = sd_air_quality r))"
proof -
  have "(\<forall>a \<in> set (alerts_to_create dev settings r).
      a_device a = d_id dev \<and>
      (a_alert_type a = temperature_high \<longrightarrow>
         a_threshold_value a = temp_high_threshold settings \<and> a_current_value a = sd_temperature r) \<and>
      (a_alert_type a = temperature_low \<longrightarrow>
         a_threshold_value a = temp_low_threshold settings \<and> a_current_value a = sd_temperature r) \<and>
      (a_alert_type a = humidity_high \<longrightarrow>
         a_threshold_value a = humidity_high_threshold settings \<and> a_current_value a = sd_humidity r) \<and>
      (a_alert_type a = humidity_low \<longrightarrow>
         a_threshold_value a = humidity_low_threshold settings \<and> a_current_value a = sd_humidity r) \<and>
      (a_alert_type a = air_quality_bad \<longrightarrow>
         a_threshold_value a = air_quality_threshold settings \<and> a_current_value a = sd_air_quality r))"
    using alerts_to_create_carry [of _ dev settings r] by blast
  then show ?thesis
    unfolding alerts_to_create_types by simp
qed

theorem alert_rules_witness:
  "map (\<lambda>a. (a_alert_type a, a_threshold_value a, a_current_value a))
       (alerts_to_create device_1 default_settings (reading_of 36 85 600))
     = [(temperature_high, 35, 36), (humidity_high, 80, 85), (air_quality_bad, 500, 600)]"
  using alert_rules [of device_1 default_settings "reading_of 36 85 600"]
  by (simp add: alerts_to_create_def new_Alert_def default_settings_def reading_of_def device_1_def)

section \<open>Lookups\<close>

lemma objects_get_Inr: "objects_get P rows = Inr x \<Longrightarrow> filter P rows = [x]"
  by (auto simp: objects_get_def split: list.splits)

lemma objects_get_Inr_iff: "objects_get P rows = Inr x \<longleftrightarrow> filter P rows = [x]"
  by (auto simp: objects_get_def split: list.splits)

lemma objects_get_DoesNotExist_iff: "objects_get P rows = Inl DoesNotExist \<longleftrightarrow> filter P rows = []"
  by (auto simp: objects_get_def split: list.splits)

lemma objects_get_Inl: "objects_get P rows = Inl e \<Longrightarrow> e = DoesNotExist \<or> e = MultipleObjectsReturned"
  by (auto simp: objects_get_def split: list.splits)

lemma filter_key_distinct:
  "distinct (map f rows) \<Longrightarrow> x \<in> set rows \<Longrightarrow> filter (\<lambda>y. f y = f x) rows = [x]"
proof (induction rows)
  case Nil
  then show ?case by simp
next
  case (Cons r rows)
  show ?case
  proof (cases "r = x")
    case True
    have "filter (\<lambda>y. f y = f x) rows = []"
      using Cons.prems(1) True by (force simp: filter_empty_conv image_iff)
    with True show ?thesis by simp
  next
    case False
    with Cons.prems have "x \<in> set rows" "f r \<noteq> f x" by auto
    with Cons show ?thesis by simp
  qed
qed

lemma filter_key_absent:
  "k \<notin> f ` set rows \<Longrightarrow> filter (\<lambda>y. f y = k \<and> Q y) rows = []"
  by (auto simp: filter_empty_conv)

lemma filter_key_and:
  assumes "distinct (map f rows)" "x \<in> set rows"
  shows "filter (\<lambda>y. f y = f x \<and> Q y) rows = (if Q x then [x] else [])"
proof -
  have "filter (\<lambda>y. f y = f x \<and> Q y) rows = filter Q (filter (\<lambda>y. f y = f x) rows)"
    by (simp add: conj_commute)
  then show ?thesis
    using filter_key_distinct [OF assms] by simp
qed

lemma device_get_active:
  assumes "distinct (map d_api_key (Device_objects s))" "dev \<in> set (Device_objects s)"
    "d_api_key dev = k" "d_is_active dev"
  shows "objects_get (\<lambda>d. d_api_key d = k \<and> d_is_active d) (Device_objects s) = Inr dev"
  using filter_key_and [OF assms(1,2), of d_is_active] assms(3,4)
  by (simp add: objects_get_def)


lemma device_get_unknown:
  assumes "k \<notin> d_api_key ` set (Device_objects s)"
  shows "objects_get (\<lambda>d. d_api_key d = k \<and> d_is_active d) (Device_objects s) = Inl DoesNotExist"
  using filter_key_absent [OF assms, of d_is_active]
  by (simp add: objects_get_def)

lemma run_validators_empty_iff:
  "run_validators lo hi x = [] \<longleftrightarrow>
     (case lo of None \<Rightarrow> True | Some m \<Rightarrow> m \<le> x) \<and> (case hi of None \<Rightarrow> True | Some m \<Rightarrow> x \<le> m)"
  by (auto simp: run_validators_def split: option.splits)

section \<open>Validation and ingestion\<close>

lemma objects_get_key_cases:
  assumes "distinct (map f rows)"
  shows "objects_get (\<lambda>y. f y = k) rows = Inl DoesNotExist \<and> filter (\<lambda>y. f y = k) rows = []
         \<or> (\<exists>x. objects_get (\<lambda>y. f y = k) rows = Inr x)"
proof (cases "k \<in> f ` set rows")
  case True
  then obtain x where "x \<in> set rows" "f x = k" by auto
  with filter_key_distinct [OF assms, of x] show ?thesis
    by (auto simp: objects_get_def)
next
  case False
  then have "filter (\<lambda>y. f y = k) rows = []"
    by (auto simp: filter_empty_conv)
  then show ?thesis by (simp add: objects_get_def)
qed

lemma settings_of_owner_total:
  assumes "distinct (map us_user (UserSettings_objects s))"
  shows "\<exists>settings s'. settings_of_owner s owner = (Inr settings, s')
           \<and> Device_objects s' = Device_objects s
           \<and> SensorData_objects s' = SensorData_objects s
           \<and> Alert_objects s' = Alert_objects s
           \<and> filter (\<lambda>e. case e of Insert_UserSettings _ \<Rightarrow> False | _ \<Rightarrow> True) (trace s')
               = filter (\<lambda>e. case e of Insert_UserSettings _ \<Rightarrow> False | _ \<Rightarrow> True) (trace s)"
  using objects_get_key_cases [OF assms, of owner]
  by (auto simp: settings_of_owner_def UserSettings_objects_create_def Let_def)

lemma required_float_Inr:
  "lo \<le> x \<Longrightarrow> x \<le> hi \<Longrightarrow> required_float (Some lo) (Some hi) (Some x) = Inr x"
  by (simp add: required_float_def run_validators_def)

lemma optional_float_Inr:
  "(case v of None \<Rightarrow> True | Some x \<Rightarrow> lo \<le> x \<and> x \<le> hi)
     \<Longrightarrow> optional_float (Some lo) (Some hi) v = Inr v"
  by (simp add: optional_float_def run_validators_def split: option.splits)

lemma optional_float_Inr_lower:
  "(case v of None \<Rightarrow> True | Some x \<Rightarrow> lo \<le> x)
     \<Longrightarrow> optional_float (Some lo) None v = Inr v"
  by (simp add: optional_float_def run_validators_def split: option.splits)

lemma api_key_field_accepts:
  "CharField_run_validation raw = Inr k
     \<Longrightarrow> objects_get (\<lambda>d. d_api_key d = k \<and> d_is_active d) (Device_objects s) = Inr dev
     \<Longrightarrow> api_key_field s (Some raw) = Inr (Inr k)"
  by (simp add: api_key_field_def validate_api_key_def)



lemma CharField_examples:
  "CharField_run_validation ''key-1'' = Inr ''key-1''"
  "CharField_run_validation ''key-2'' = Inr ''key-2''"
  "CharField_run_validation ''key-3'' = Inr ''key-3''"
  "CharField_run_validation '' key-1 '' = Inr ''key-1''"
  "CharField_run_validation [] = Inl [blank]"
  "CharField_run_validation ''  '' = Inl [blank]"
  by (simp_all add: CharField_run_validation_def strip_def ws_len_def whitespace_def)

lemma is_valid_accepts:
  assumes "p_temperature p = Some t" "- 50 \<le> t" "t \<le> 100"
    and "p_humidity p = Some h" "0 \<le> h" "h \<le> 100"
    and "p_air_quality p = Some q" "0 \<le> q" "q \<le> 1000"
    and "case p_uv_index p of None \<Rightarrow> True | Some u \<Rightarrow> 0 \<le> u \<and> u \<le> 15"
    and "case p_light_level p of None \<Rightarrow> True | Some l \<Rightarrow> 0 \<le> l"
    and "p_api_key p = Some raw" "CharField_run_validation raw = Inr k"
    and "objects_get (\<lambda>d. d_api_key d = k \<and> d_is_active d) (Device_objects s) = Inr dev"
  shows "is_valid s p =
           Inr (Inr \<lparr> vd_temperature = t, vd_humidity = h, vd_air_quality = q,
                      vd_uv_index = p_uv_index p, vd_light_level = p_light_level p,
                      vd_raw_data = p_raw_data p, vd_api_key = k \<rparr>)"
  using assms(1-9,12) optional_float_Inr [OF assms(10)] optional_float_Inr_lower [OF assms(11)]
    api_key_field_accepts [OF assms(13,14)]
  by (simp add: is_valid_def to_internal_value_def required_float_Inr)

lemma check_alerts_total:
  assumes "distinct (map us_user (UserSettings_objects s))"
  shows "\<exists>s'. check_alerts s dev r = (Inr (), s')
           \<and> Device_objects s' = Device_objects s
           \<and> SensorData_objects s' = SensorData_objects s"
proof -
  obtain settings s1 where 1: "settings_of_owner s (d_owner dev) = (Inr settings, s1)"
    "Device_objects s1 = Device_objects s" "SensorData_objects s1 = SensorData_objects s"
    using settings_of_owner_total [OF assms] by blast
  then show ?thesis
    by (simp add: check_alerts_def Alert_objects_bulk_create_def Let_def)
qed

lemma device_get_no_multiple:
  assumes "distinct (map d_api_key (Device_objects s))"
  shows "objects_get (\<lambda>d. d_api_key d = k \<and> d_is_active d) (Device_objects s) = Inl DoesNotExist
         \<or> (\<exists>dev. objects_get (\<lambda>d. d_api_key d = k \<and> d_is_active d) (Device_objects s) = Inr dev)"
proof (cases "k \<in> d_api_key ` set (Device_objects s)")
  case True
  then obtain x where x: "x \<in> set (Device_objects s)" "d_api_key x = k" by auto
  show ?thesis
    using filter_key_and [OF assms x(1), of d_is_active] x(2)
    by (auto simp: objects_get_def)
next
  case False
  then show ?thesis using device_get_unknown by blast
qed

lemma api_key_field_no_exception:
  assumes "distinct (map d_api_key (Device_objects s))"
  shows "\<exists>r. api_key_field s v = Inr r"
proof (cases v)
  case None
  then show ?thesis by (simp add: api_key_field_def)
next
  case (Some raw)
  show ?thesis
  proof (cases "CharField_run_validation raw")
    case (Inl es)
    with Some show ?thesis by (simp add: api_key_field_def)
  next
    case (Inr k)
    with Some show ?thesis
      using device_get_no_multiple [OF assms, of k]
      by (auto simp: api_key_field_def validate_api_key_def)
  qed
qed

lemma to_internal_value_errors:
  assumes "(\<exists>e. a = Inl e) \<or> (\<exists>e. b = Inl e) \<or> (\<exists>e. c = Inl e) \<or> (\<exists>e. d = Inl e)
           \<or> (\<exists>e. l = Inl e) \<or> (\<exists>e. k = Inl e)"
  shows "to_internal_value a b c d l r k =
           Inl (field_errors ''temperature'' a @ field_errors ''humidity'' b
                @ field_errors ''air_quality'' c @ field_errors ''uv_index'' d
                @ field_errors ''light_level'' l @ field_errors ''api_key'' k)"
  using assms by (auto simp: to_internal_value_def split: sum.splits)

lemma required_float_below:
  "x < lo \<Longrightarrow> lo \<le> hi \<Longrightarrow> required_float (Some lo) (Some hi) (Some x) = Inl [min_value lo]"
  by (simp add: required_float_def run_validators_def)

lemma required_float_above:
  "hi < x \<Longrightarrow> lo \<le> hi \<Longrightarrow> required_float (Some lo) (Some hi) (Some x) = Inl [max_value hi]"
  by (simp add: required_float_def run_validators_def)

lemma optional_float_below:
  "x < lo \<Longrightarrow> lo \<le> hi \<Longrightarrow> optional_float (Some lo) (Some hi) (Some x) = Inl [min_value lo]"
  by (simp add: optional_float_def run_validators_def)

lemma optional_float_above:
  "hi < x \<Longrightarrow> lo \<le> hi \<Longrightarrow> optional_float (Some lo) (Some hi) (Some x) = Inl [max_value hi]"
  by (simp add: optional_float_def run_validators_def)

lemma optional_float_below_only:
  "x < lo \<Longrightarrow> optional_float (Some lo) None (Some x) = Inl [min_value lo]"
  by (simp add: optional_float_def run_validators_def)

lemma in_field_errors: "(name, es) \<in> set (field_errors name (Inl es))"
  by (simp add: field_errors_def)

text \<open>
  C2. A payload whose fields are all within the declared ranges and whose key is that of an
  active device is answered with 201 and stores exactly one new \<^verbatim>\<open>SensorData\<close> row, of
  that device; the response holds the primary key of the new row and the server time of
  the insert. A \<^verbatim>\<open>timestamp\<close> sent by the client changes nothing. The key of the
  payload is compared as the \<^verbatim>\<open>api_key\<close> field hands it on, that is stripped. The two
  \<open>distinct\<close> hypotheses are the uniqueness constraints of models.py (\<^verbatim>\<open>api_key\<close>
  unique, one \<^verbatim>\<open>UserSettings\<close> row per user).
\<close>

theorem ingest_valid_persists_one_reading:
  assumes "p_temperature p = Some t" "- 50 \<le> t" "t \<le> 100"
    and "p_humidity p = Some h" "0 \<le> h" "h \<le> 100"
    and "p_air_quality p = Some q" "0 \<le> q" "q \<le> 1000"
    and "case p_uv_index p of None \<Rightarrow> True | Some u \<Rightarrow> 0 \<le> u \<and> u \<le> 15"
    and "case p_light_level p of None \<Rightarrow> True | Some l \<Rightarrow> 0 \<le> l"
    and "p_api_key p = Some raw" "CharField_run_validation raw = Inr k"
    and "dev \<in> set (Device_objects s)" "d_api_key dev = k" "d_is_active dev"
    and "distinct (map d_api_key (Device_objects s))"
    and "distinct (map us_user (UserSettings_objects s))"
  shows "fst (receive_sensor_data s p) =
           Inr \<lparr> status_code = 201, data = success (next_SensorData_id s) (clock s) (d_name dev) \<rparr>
         \<and> SensorData_objects (snd (receive_sensor_data s p)) =
             SensorData_objects s @
               [\<lparr> sd_id = next_SensorData_id s, sd_device = d_id dev,
                   sd_temperature = t, sd_humidity = h, sd_air_quality = q,
                   sd_uv_index = p_uv_index p, sd_light_level = p_light_level p,
                   sd_timestamp = clock s,
                   sd_raw_data = (case p_raw_data p of None \<Rightarrow> ''{}'' | Some j \<Rightarrow> j) \<rparr>]
         \<and> receive_sensor_data s (p\<lparr> p_timestamp := ts \<rparr>) = receive_sensor_data s p"
proof -
  have get: "objects_get (\<lambda>d. d_api_key d = k \<and> d_is_active d) (Device_objects s) = Inr dev"
    using device_get_active assms(14-17) by blast
  note valid = is_valid_accepts [OF assms(1-13) get]
  define vd where "vd = \<lparr> vd_temperature = t, vd_humidity = h, vd_air_quality = q,
                      vd_uv_index = p_uv_index p, vd_light_level = p_light_level p,
                      vd_raw_data = p_raw_data p, vd_api_key = k \<rparr>"
  obtain row s1 where sc: "SensorData_objects_create s dev vd = (row, s1)"
    by (cases "SensorData_objects_create s dev vd")
  have row: "row = \<lparr> sd_id = next_SensorData_id s, sd_device = d_id dev,
                   sd_temperature = t, sd_humidity = h, sd_air_quality = q,
                   sd_uv_index = p_uv_index p, sd_light_level = p_light_level p,
                   sd_timestamp = clock s,
                   sd_raw_data = (case p_raw_data p of None \<Rightarrow> ''{}'' | Some j \<Rightarrow> j) \<rparr>"
    and s1: "SensorData_objects s1 = SensorData_objects s @ [row]"
       "UserSettings_objects s1 = UserSettings_objects s"
    using sc by (auto simp: SensorData_objects_create_def Let_def vd_def
        timezone_now_def sensor_data_created_def group_send_def)
  obtain s2 where ca: "check_alerts s1 dev row = (Inr (), s2)"
      "SensorData_objects s2 = SensorData_objects s1"
    using check_alerts_total [of s1 dev row] assms(18) s1(2) by auto
  have "create s vd = (Inr (row, dev), s2)"
    using get sc ca by (simp add: create_def vd_def)
  then have "receive_sensor_data s p =
      (Inr \<lparr> status_code = 201, data = success (sd_id row) (sd_timestamp row) (d_name dev) \<rparr>, s2)"
    using valid by (simp add: receive_sensor_data_def vd_def)
  moreover have "receive_sensor_data s (p\<lparr> p_timestamp := ts \<rparr>) = receive_sensor_data s p"
    by (simp add: receive_sensor_data_def is_valid_def split: sum.splits)
  ultimately show ?thesis
    using s1 ca(2) row by simp
qed

theorem ingest_valid_persists_one_reading_witness:
  "fst (receive_sensor_data world_0 (payload_of 20 50 100 ''key-1'')) =
     Inr \<lparr> status_code = 201, data = success 1 100 ''garden'' \<rparr>
   \<and> SensorData_objects (snd (receive_sensor_data world_0 (payload_of 20 50 100 ''key-1''))) =
       [reading_of 20 50 100]"
  using ingest_valid_persists_one_reading
    [of "payload_of 20 50 100 ''key-1''" 20 50 100 "''key-1''" "''key-1''" device_1 world_0]
  by (simp add: world_0_def payload_of_def device_1_def device_2_def reading_of_def
      CharField_examples)

text \<open>
  C3. A payload with a numeric field outside its declared range (temperature outside
  -50..100, humidity outside 0..100, air quality outside 0..1000, UV index outside 0..15,
  light level below 0) leaves the store as it was, so neither a reading nor an alert is
  stored, and is answered with 400; the errors name every such field, with the limit
  that was violated.
\<close>

theorem ingest_out_of_range_rejected:
  assumes "distinct (map d_api_key (Device_objects s))"
    and "(\<exists>x. p_temperature p = Some x \<and> (x < - 50 \<or> 100 < x))
       \<or> (\<exists>x. p_humidity p = Some x \<and> (x < 0 \<or> 100 < x))
       \<or> (\<exists>x. p_air_quality p = Some x \<and> (x < 0 \<or> 1000 < x))
       \<or> (\<exists>x. p_uv_index p = Some x \<and> (x < 0 \<or> 15 < x))
       \<or> (\<exists>x. p_light_level p = Some x \<and> x < 0)"
  shows "snd (receive_sensor_data s p) = s \<and>
         (\<exists>errs. fst (receive_sensor_data s p) = Inr \<lparr> status_code = 400, data = error errs \<rparr> \<and>
            (\<forall>x. p_temperature p = Some x \<and> x < - 50 \<longrightarrow> (''temperature'', [min_value (- 50)]) \<in> set errs) \<and>
            (\<forall>x. p_temperature p = Some x \<and> 100 < x \<longrightarrow> (''temperature'', [max_value 100]) \<in> set errs) \<and>
            (\<forall>x. p_humidity p = Some x \<and> x < 0 \<longrightarrow> (''humidity'', [min_value 0]) \<in> set errs) \<and>
            (\<forall>x. p_humidity p = Some x \<and> 100 < x \<longrightarrow> (''humidity'', [max_value 100]) \<in> set errs) \<and>
            (\<forall>x. p_air_quality p = Some x \<and> x < 0 \<longrightarrow> (''air_quality'', [min_value 0]) \<in> set errs) \<and>
            (\<forall>x. p_air_quality p = Some x \<and> 1000 < x \<longrightarrow> (''air_quality'', [max_value 1000]) \<in> set errs) \<and>
            (\<forall>x. p_uv_index p = Some x \<and> x < 0 \<longrightarrow> (''uv_index'', [min_value 0]) \<in> set errs) \<and>
            (\<forall>x. p_uv_index p = Some x \<and> 15 < x \<longrightarrow> (''uv_index'', [max_value 15]) \<in> set errs) \<and>
            (\<forall>x. p_light_level p = Some x \<and> x < 0 \<longrightarrow> (''light_level'', [min_value 0]) \<in> set errs))"
proof -
  obtain kr where kr: "api_key_field s (p_api_key p) = Inr kr"
    using api_key_field_no_exception [OF assms(1)] by blast
  define a where "a = required_float (Some (-50)) (Some 100) (p_temperature p)"
  define b where "b = required_float (Some 0) (Some 100) (p_humidity p)"
  define c where "c = required_float (Some 0) (Some 1000) (p_air_quality p)"
  define d where "d = optional_float (Some 0) (Some 15) (p_uv_index p)"
  define l where "l = optional_float (Some 0) None (p_light_level p)"
  define errs where "errs = field_errors ''temperature'' a @ field_errors ''humidity'' b
                @ field_errors ''air_quality'' c @ field_errors ''uv_index'' d
                @ field_errors ''light_level'' l @ field_errors ''api_key'' kr"
  have bad: "(\<exists>e. a = Inl e) \<or> (\<exists>e. b = Inl e) \<or> (\<exists>e. c = Inl e) \<or> (\<exists>e. d = Inl e)
           \<or> (\<exists>e. l = Inl e) \<or> (\<exists>e. kr = Inl e)"
    using assms(2) unfolding a_def b_def c_def d_def l_def
    by (auto simp: required_float_below required_float_above optional_float_below
        optional_float_above optional_float_below_only)
  have "is_valid s p = Inr (Inl errs)"
    using kr to_internal_value_errors [OF bad, of "p_raw_data p"]
    by (simp add: is_valid_def a_def b_def c_def d_def l_def errs_def)
  then have res: "receive_sensor_data s p = (Inr \<lparr> status_code = 400, data = error errs \<rparr>, s)"
    by (simp add: receive_sensor_data_def)
  have t1: "p_temperature p = Some x \<Longrightarrow> x < - 50 \<Longrightarrow> (''temperature'', [min_value (- 50)]) \<in> set errs" for x
    by (simp add: errs_def a_def required_float_below in_field_errors)
  have t2: "p_temperature p = Some x \<Longrightarrow> 100 < x \<Longrightarrow> (''temperature'', [max_value 100]) \<in> set errs" for x
    by (simp add: errs_def a_def required_float_above in_field_errors)
  have h1: "p_humidity p = Some x \<Longrightarrow> x < 0 \<Longrightarrow> (''humidity'', [min_value 0]) \<in> set errs" for x
    by (simp add: errs_def b_def required_float_below in_field_errors)
  have h2: "p_humidity p = Some x \<Longrightarrow> 100 < x \<Longrightarrow> (''humidity'', [max_value 100]) \<in> set errs" for x
    by (simp add: errs_def b_def required_float_above in_field_errors)
  have q1: "p_air_quality p = Some x \<Longrightarrow> x < 0 \<Longrightarrow> (''air_quality'', [min_value 0]) \<in> set errs" for x
    by (simp add: errs_def c_def required_float_below in_field_errors)
  have q2: "p_air_quality p = Some x \<Longrightarrow> 1000 < x \<Longrightarrow> (''air_quality'', [max_value 1000]) \<in> set errs" for x
    by (simp add: errs_def c_def required_float_above in_field_errors)
  have u1: "p_uv_index p = Some x \<Longrightarrow> x < 0 \<Longrightarrow> (''uv_index'', [min_value 0]) \<in> set errs" for x
    by (simp add: errs_def d_def optional_float_below in_field_errors)
  have u2: "p_uv_index p = Some x \<Longrightarrow> 15 < x \<Longrightarrow> (''uv_index'', [max_value 15]) \<in> set errs" for x
    by (simp add: errs_def d_def optional_float_above in_field_errors)
  have l1: "p_light_level p = Some x \<Longrightarrow> x < 0 \<Longrightarrow> (''light_level'', [min_value 0]) \<in> set errs" for x
    by (simp add: errs_def l_def optional_float_below_only in_field_errors)
  show ?thesis
    unfolding res fst_conv snd_conv
    by (intro conjI exI [of _ errs] allI impI; (elim conjE)?;
        (rule refl | erule (1) t1 t2 h1 h2 q1 q2 u1 u2 l1))
qed

theorem ingest_out_of_range_rejected_witness:
  "receive_sensor_data world_0 (payload_of 136 50 100 ''key-1'') =
     (Inr \<lparr> status_code = 400, data = error [(''temperature'', [max_value 100])] \<rparr>, world_0)"
  using ingest_out_of_range_rejected [of world_0 "payload_of 136 50 100 ''key-1''"]
  by (simp add: world_0_def payload_of_def device_1_def device_2_def receive_sensor_data_def
      is_valid_def to_internal_value_def api_key_field_def CharField_examples validate_api_key_def objects_get_def
      required_float_def optional_float_def run_validators_def field_errors_def)




section \<open>Order of effects\<close>

lemma settings_of_owner_effects:
  "\<exists>rest. trace (snd (settings_of_owner s owner)) = trace s @ rest
      \<and> filter is_reading_insert rest = [] \<and> filter is_reading_event rest = []
      \<and> filter is_alert_event rest = []
      \<and> SensorData_objects (snd (settings_of_owner s owner)) = SensorData_objects s
      \<and> Alert_objects (snd (settings_of_owner s owner)) = Alert_objects s"
  by (auto simp: settings_of_owner_def UserSettings_objects_create_def Let_def
      split: sum.splits exn.splits)

lemma check_alerts_effects:
  "\<exists>rest. trace (snd (check_alerts s dev r)) = trace s @ rest
      \<and> filter is_reading_insert rest = [] \<and> filter is_reading_event rest = []
      \<and> filter is_alert_event rest = []
      \<and> SensorData_objects (snd (check_alerts s dev r)) = SensorData_objects s"
proof -
  obtain res s1 where so: "settings_of_owner s (d_owner dev) = (res, s1)"
    by (cases "settings_of_owner s (d_owner dev)")
  obtain rest where rest: "trace s1 = trace s @ rest" "filter is_reading_insert rest = []"
    "filter is_reading_event rest = []" "filter is_alert_event rest = []"
    "SensorData_objects s1 = SensorData_objects s"
    using settings_of_owner_effects [of s "d_owner dev"] so by auto
  show ?thesis
  proof (cases res)
    case (Inl e)
    then show ?thesis using so rest by (simp add: check_alerts_def)
  next
    case (Inr settings)
    then show ?thesis using so rest
      by (simp add: check_alerts_def Alert_objects_bulk_create_def Let_def)
  qed
qed

lemma receive_sensor_data_snd:
  "is_valid s p = Inr (Inr vd) \<Longrightarrow> snd (receive_sensor_data s p) = snd (create s vd)"
  by (cases "create s vd") (auto simp: receive_sensor_data_def split: sum.splits)

lemma create_snd:
  assumes "objects_get (\<lambda>d. d_api_key d = vd_api_key vd \<and> d_is_active d) (Device_objects s) = Inr dev"
    and "SensorData_objects_create s dev vd = (row, s1)"
  shows "snd (create s vd) = snd (check_alerts s1 dev row)"
  using assms by (cases "check_alerts s1 dev row") (auto simp: create_def split: sum.splits)

lemma ingest_alert_events_unchanged:
  "filter is_alert_event (trace (snd (receive_sensor_data s p))) = filter is_alert_event (trace s)"
proof (cases "is_valid s p")
  case (Inl e)
  then show ?thesis by (simp add: receive_sensor_data_def)
next
  case (Inr v)
  show ?thesis
  proof (cases v)
    case (Inl errs)
    with Inr show ?thesis by (simp add: receive_sensor_data_def)
  next
    case vd: (Inr vd)
    show ?thesis
    proof (cases "objects_get (\<lambda>d. d_api_key d = vd_api_key vd \<and> d_is_active d) (Device_objects s)")
      case (Inl e)
      with Inr vd show ?thesis by (simp add: receive_sensor_data_def create_def)
    next
      case dev: (Inr dev)
      obtain row s1 where sc: "SensorData_objects_create s dev vd = (row, s1)"
        by (cases "SensorData_objects_create s dev vd")
      have s1: "filter is_alert_event (trace s1) = filter is_alert_event (trace s)"
        using sc by (auto simp: SensorData_objects_create_def Let_def
            sensor_data_created_def group_send_def)
      obtain rest where rest: "trace (snd (check_alerts s1 dev row)) = trace s1 @ rest"
        "filter is_alert_event rest = []"
        using check_alerts_effects [of s1 dev row] by blast
      have fin: "snd (receive_sensor_data s p) = snd (check_alerts s1 dev row)"
        using Inr vd receive_sensor_data_snd [of s p vd] create_snd [OF dev sc] by simp
      show ?thesis using s1 rest fin by simp
    qed
  qed
qed

text \<open>
  C5. Whatever the store and the payload, a call of \<^verbatim>\<open>receive_sensor_data\<close> either
  inserts no reading and sends nothing, or it first inserts one reading, then sends one
  reading-event for that very row to the sensor group of the owner, and only then runs
  \<^verbatim>\<open>_check_alerts\<close>, on a store that already holds the row; what follows holds no
  further insert of a reading and no further reading-event.
\<close>

theorem reading_persisted_before_published:
  "trace (snd (receive_sensor_data s p)) = trace s
     \<and> SensorData_objects (snd (receive_sensor_data s p)) = SensorData_objects s
   \<or> (\<exists>row dev s1 rest.
        row \<in> set (SensorData_objects s1)
      \<and> trace s1 = trace s @
          [Insert_SensorData row,
           Group_Send (sensors_group (d_owner dev))
             (sensor_data_update \<lparr> r_row = row, r_device_name = d_name dev,
                                    r_device_location = d_location dev \<rparr>)]
      \<and> snd (receive_sensor_data s p) = snd (check_alerts s1 dev row)
      \<and> trace (snd (receive_sensor_data s p)) = trace s1 @ rest
      \<and> filter is_reading_insert rest = []
      \<and> filter is_reading_event rest = []
      \<and> SensorData_objects (snd (receive_sensor_data s p)) = SensorData_objects s @ [row])"
proof (cases "is_valid s p")
  case (Inl e)
  then show ?thesis by (simp add: receive_sensor_data_def)
next
  case (Inr v)
  show ?thesis
  proof (cases v)
    case (Inl errs)
    with Inr show ?thesis by (simp add: receive_sensor_data_def)
  next
    case vd: (Inr vd)
    show ?thesis
    proof (cases "objects_get (\<lambda>d. d_api_key d = vd_api_key vd \<and> d_is_active d) (Device_objects s)")
      case (Inl e)
      with Inr vd show ?thesis by (simp add: receive_sensor_data_def create_def)
    next
      case dev: (Inr dev)
      obtain row s1 where sc: "SensorData_objects_create s dev vd = (row, s1)"
        by (cases "SensorData_objects_create s dev vd")
      have s1: "SensorData_objects s1 = SensorData_objects s @ [row]"
        "trace s1 = trace s @
          [Insert_SensorData row,
           Group_Send (sensors_group (d_owner dev))
             (sensor_data_update \<lparr> r_row = row, r_device_name = d_name dev,
                                    r_device_location = d_location dev \<rparr>)]"
        using sc by (auto simp: SensorData_objects_create_def Let_def
            sensor_data_created_def group_send_def)
      obtain rest where rest: "trace (snd (check_alerts s1 dev row)) = trace s1 @ rest"
        "filter is_reading_insert rest = []" "filter is_reading_event rest = []"
        "SensorData_objects (snd (check_alerts s1 dev row)) = SensorData_objects s1"
        using check_alerts_effects [of s1 dev row] by blast
      have fin: "snd (receive_sensor_data s p) = snd (check_alerts s1 dev row)"
        using Inr vd receive_sensor_data_snd [of s p vd] create_snd [OF dev sc] by simp
      have "row \<in> set (SensorData_objects s1)" using s1(1) by simp
      then show ?thesis
        using s1 rest fin by (intro disjI2 exI [of _ row] exI [of _ dev] exI [of _ s1] exI [of _ rest]) simp
    qed
  qed
qed

theorem reading_persisted_before_published_witness:
  "take 2 (trace (snd (receive_sensor_data world_0 (payload_of 36 85 600 ''key-1'')))) =
     [Insert_SensorData (reading_of 36 85 600),
      Group_Send (sensors_group 7)
        (sensor_data_update \<lparr> r_row = reading_of 36 85 600, r_device_name = ''garden'',
                               r_device_location = ''roof'' \<rparr>)]
   \<and> length (filter is_reading_event
         (trace (snd (receive_sensor_data world_0 (payload_of 36 85 600 ''key-1''))))) = 1
   \<and> trace (snd (receive_sensor_data world_0 (payload_of 36 85 600 ''key-2''))) = []"
  using reading_persisted_before_published [of world_0 "payload_of 36 85 600 ''key-1''"]
  by (simp add: world_0_def payload_of_def device_1_def device_2_def reading_of_def
      receive_sensor_data_def is_valid_def to_internal_value_def api_key_field_def
      CharField_examples validate_api_key_def objects_get_def required_float_def optional_float_def
      run_validators_def field_errors_def create_def SensorData_objects_create_def
      sensor_data_created_def group_send_def timezone_now_def check_alerts_def
      settings_of_owner_def UserSettings_objects_create_def alerts_to_create_def
      new_Alert_def Alert_objects_bulk_create_def Let_def)


section \<open>Alert events\<close>

lemmas eval_defs = world_0_def payload_of_def device_1_def device_2_def reading_of_def
      receive_sensor_data_def is_valid_def to_internal_value_def api_key_field_def
      CharField_examples validate_api_key_def objects_get_def required_float_def optional_float_def
      run_validators_def field_errors_def create_def SensorData_objects_create_def
      sensor_data_created_def group_send_def timezone_now_def check_alerts_def
      settings_of_owner_def UserSettings_objects_create_def alerts_to_create_def
      new_Alert_def Alert_objects_bulk_create_def Let_def

lemma alert_created_dual_delivery:
  assumes "objects_get (\<lambda>d. d_id d = a_device instance) (Device_objects s) = Inr dev"
  shows "alert_created s instance True =
           Inr (s\<lparr> trace := trace s @
                  [Group_Send (alerts_group (d_owner dev))
                     (alert_notification \<lparr> ar_row = instance, ar_device_name = d_name dev \<rparr>
                        (a_created_at instance)),
                   Group_Send (sensors_group (d_owner dev))
                     (alert_notification \<lparr> ar_row = instance, ar_device_name = d_name dev \<rparr>
                        None)] \<rparr>)"
  using assms by (simp add: alert_created_def group_send_def Let_def)

text \<open>
  C6. The claim is that every alert created by the evaluation step of the ingestion is
  announced by one alert-event, delivered to the alert group and to the sensor group of
  the owner. The receiver \<^verbatim>\<open>alert_created\<close> does send to both groups when it runs
  (\<open>alert_created_dual_delivery\<close>), but \<^verbatim>\<open>_check_alerts\<close> stores its alerts with
  \<^verbatim>\<open>bulk_create\<close>, which runs no receiver: for the reading 36 / 85 / 600 of device 1 the
  three alerts are stored and no alert-event is sent to any group.
\<close>

theorem ingest_publishes_no_alert_event:
  "map a_alert_type
     (Alert_objects (snd (receive_sensor_data world_0 (payload_of 36 85 600 ''key-1''))))
     = [temperature_high, humidity_high, air_quality_bad]
   \<and> filter is_alert_event
       (trace (snd (receive_sensor_data world_0 (payload_of 36 85 600 ''key-1'')))) = []"
  by (simp add: eval_defs)

section \<open>Settings and alert rows\<close>

text \<open>
  C7. For an owner without a \<^verbatim>\<open>UserSettings\<close> row, the first lookup of
  \<^verbatim>\<open>_check_alerts\<close> creates and stores a row with the defaults 35.0, 5.0, 80.0, 20.0 and
  500.0 and returns it; the next lookup returns that stored row and changes nothing; and
  in any store that holds exactly one row for the owner the lookup returns that row
  without creating another.
\<close>

theorem settings_created_once:
  assumes "filter (\<lambda>u. us_user u = owner) (UserSettings_objects s) = []"
  shows "fst (settings_of_owner s owner) =
           Inr \<lparr> us_id = next_UserSettings_id s, us_user = owner,
                  temp_high_threshold = 35.0, temp_low_threshold = 5.0,
                  humidity_high_threshold = 80.0, humidity_low_threshold = 20.0,
                  air_quality_threshold = 500.0,
                  email_notifications = True, push_notifications = True,
                  us_created_at = clock s, us_updated_at = clock s \<rparr>
       \<and> UserSettings_objects (snd (settings_of_owner s owner)) =
           UserSettings_objects s @
             [\<lparr> us_id = next_UserSettings_id s, us_user = owner,
                temp_high_threshold = 35.0, temp_low_threshold = 5.0,
                humidity_high_threshold = 80.0, humidity_low_threshold = 20.0,
                air_quality_threshold = 500.0,
                email_notifications = True, push_notifications = True,
                us_created_at = clock s, us_updated_at = clock s \<rparr>]
       \<and> settings_of_owner (snd (settings_of_owner s owner)) owner =
           (fst (settings_of_owner s owner), snd (settings_of_owner s owner))
       \<and> (\<forall>s2 row. filter (\<lambda>u. us_user u = owner) (UserSettings_objects s2) = [row]
             \<longrightarrow> settings_of_owner s2 owner = (Inr row, s2))"
  using assms
  by (simp add: settings_of_owner_def UserSettings_objects_create_def objects_get_def
      timezone_now_def Let_def)

theorem settings_created_once_witness:
  "fst (settings_of_owner world_0 7) = Inr default_settings
   \<and> UserSettings_objects (snd (settings_of_owner world_0 7)) = [default_settings]
   \<and> settings_of_owner (snd (settings_of_owner world_0 7)) 7 =
       (Inr default_settings, snd (settings_of_owner world_0 7))"
  using settings_created_once [of 7 world_0]
  by (simp add: eval_defs default_settings_def)


text \<open>
  C9. When temperature, humidity and air quality of a reading are neither above a high
  threshold nor below a low threshold of the settings, \<^verbatim>\<open>_check_alerts\<close> builds no
  alert, and running it with those settings stores no \<^verbatim>\<open>Alert\<close> row.
\<close>

theorem within_bounds_no_alert:
  assumes "\<not> sd_temperature r > temp_high_threshold settings"
    and "\<not> sd_temperature r < temp_low_threshold settings"
    and "\<not> sd_humidity r > humidity_high_threshold settings"
    and "\<not> sd_humidity r < humidity_low_threshold settings"
    and "\<not> sd_air_quality r > air_quality_threshold settings"
  shows "alerts_to_create dev settings r = []
       \<and> (\<forall>s s1. settings_of_owner s (d_owner dev) = (Inr settings, s1) \<longrightarrow>
             check_alerts s dev r = (Inr (), s1)
           \<and> Alert_objects s1 = Alert_objects s
           \<and> next_Alert_id s1 = next_Alert_id s)"
proof -
  have 1: "alerts_to_create dev settings r = []"
    using assms by (simp add: alerts_to_create_def)
  have 2: "settings_of_owner s (d_owner dev) = (Inr settings, s1) \<Longrightarrow>
             Alert_objects s1 = Alert_objects s \<and> next_Alert_id s1 = next_Alert_id s" for s s1
    by (auto simp: settings_of_owner_def UserSettings_objects_create_def Let_def
        split: sum.splits exn.splits if_splits)
  show ?thesis using 1 2 by (simp add: check_alerts_def)
qed

theorem within_bounds_no_alert_witness:
  "alerts_to_create device_1 default_settings (reading_of 20 50 100) = []
   \<and> fst (check_alerts world_0 device_1 (reading_of 20 50 100)) = Inr ()
   \<and> Alert_objects (snd (check_alerts world_0 device_1 (reading_of 20 50 100))) = []"
  using within_bounds_no_alert [where r = "reading_of 20 50 100" and settings = default_settings and dev = device_1]
  by (simp add: eval_defs default_settings_def)

section \<open>Resolving an alert\<close>

lemma get_object_Inr:
  assumes "get_object s user f pk = Inr alert"
  shows "alert \<in> set (Alert_objects s) \<and> a_id alert = Some pk"
proof -
  have "objects_get (\<lambda>a. a_id a = Some pk) (get_queryset s user f) = Inr alert"
    using assms by (auto simp: get_object_def split: sum.splits exn.splits)
  then have "filter (\<lambda>a. a_id a = Some pk) (get_queryset s user f) = [alert]"
    by (auto simp: objects_get_def split: list.splits)
  then have "alert \<in> set (filter (\<lambda>a. a_id a = Some pk) (get_queryset s user f))"
    by simp
  then have "alert \<in> set (get_queryset s user f)" "a_id alert = Some pk"
    by auto
  moreover have "set (get_queryset s user f) \<subseteq> set (Alert_objects s)"
    by (auto simp: get_queryset_def Let_def split: option.splits)
  ultimately show ?thesis by blast
qed

text \<open>
  C10. For every alert that \<^verbatim>\<open>get_object\<close> finds, \<^verbatim>\<open>resolve\<close> returns and stores that
  alert with \<^verbatim>\<open>status\<close> set to resolved and \<^verbatim>\<open>resolved_at\<close> set to the server time;
  the two record updates leave device, alert type, threshold value, current value, message
  and \<^verbatim>\<open>created_at\<close> as they were. Rows with another primary key are not touched, and
  nothing is sent to the channel layer.
\<close>

theorem resolve_frame:
  assumes "get_object s user f pk = Inr alert"
  shows "resolve s (Some user) f pk =
           (Inr (alert\<lparr> a_status := resolved, a_resolved_at := Some (clock s) \<rparr>),
            s\<lparr> Alert_objects :=
                  map (\<lambda>r. if a_id r = Some pk
                           then alert\<lparr> a_status := resolved, a_resolved_at := Some (clock s) \<rparr>
                           else r) (Alert_objects s),
                trace := trace s @
                  [Update_Alert (alert\<lparr> a_status := resolved, a_resolved_at := Some (clock s) \<rparr>)] \<rparr>)"
proof -
  have "alert \<in> set (Alert_objects s)" "a_id alert = Some pk"
    using get_object_Inr [OF assms] by auto
  then have "Some pk \<in> a_id ` set (Alert_objects s)" by force
  then show ?thesis
    using assms \<open>a_id alert = Some pk\<close>
    by (simp add: resolve_def Alert_save_def alert_created_def timezone_now_def Let_def)
qed

theorem resolve_frame_witness:
  "map (\<lambda>a. (a_id a, a_alert_type a, a_threshold_value a, a_current_value a, a_status a,
             a_created_at a, a_resolved_at a))
     (Alert_objects
        (snd (resolve (snd (receive_sensor_data world_0 (payload_of 36 85 600 ''key-1'')))
                (Some 7) None 2)))
   = [(Some 1, temperature_high, 35, 36, active, Some 100, None),
      (Some 2, humidity_high, 80, 85, resolved, Some 100, Some 100),
      (Some 3, air_quality_bad, 500, 600, active, Some 100, None)]"
  using resolve_frame
    [of "snd (receive_sensor_data world_0 (payload_of 36 85 600 ''key-1''))" 7 None 2
        "Alert_objects (snd (receive_sensor_data world_0 (payload_of 36 85 600 ''key-1''))) ! 1"]
  by (simp add: eval_defs get_object_def get_queryset_def)


section \<open>Two requests racing for the first settings row\<close>

lemma lookup_step_twice:
  "lookup_step owner (lookup_step owner (s, at_get)) =
     (snd (settings_of_owner s owner), returned (fst (settings_of_owner s owner)))"
  by (auto simp: lookup_step_def settings_of_owner_def UserSettings_objects_create_def Let_def
      split: sum.splits exn.splits)

lemma race_second_create_fails:
  assumes "filter (\<lambda>u. us_user u = owner) (UserSettings_objects s) = []"
  shows "run_schedule owner [first_request, second_request, first_request, second_request]
           (s, at_get, at_get) =
         (snd (settings_of_owner s owner), returned (fst (settings_of_owner s owner)),
          returned (Inl IntegrityError))"
  using assms
  by (simp add: run_schedule_def lookup_step_def settings_of_owner_def objects_get_def
      UserSettings_objects_create_def Let_def)

text \<open>
  C8. The claim is that two ingests racing for an owner without settings create exactly
  one row and that neither fails. The lookup is a \<^verbatim>\<open>get\<close> followed by a \<^verbatim>\<open>create\<close>,
  not one atomic insert-if-absent: when both requests of user 7 run their \<^verbatim>\<open>get\<close> before
  either runs its \<^verbatim>\<open>create\<close>, the first stores the default row and the second leaves
  the lookup with \<^verbatim>\<open>IntegrityError\<close>, which nothing in \<^verbatim>\<open>_check_alerts\<close> catches. One row
  is stored, but the second ingest fails.
\<close>

theorem race_on_first_settings:
  "run_schedule 7 [first_request, second_request, first_request, second_request]
     (world_0, at_get, at_get) =
     (snd (settings_of_owner world_0 7), returned (Inr default_settings),
      returned (Inl IntegrityError))
   \<and> UserSettings_objects (snd (settings_of_owner world_0 7)) = [default_settings]
   \<and> run_schedule 7 [first_request, first_request, second_request, second_request]
     (world_0, at_get, at_get) =
     (snd (settings_of_owner world_0 7), returned (Inr default_settings),
      returned (Inr default_settings))"
  by (simp add: run_schedule_def lookup_step_def settings_of_owner_def objects_get_def
      UserSettings_objects_create_def timezone_now_def Let_def world_0_def
      default_settings_def)


end
